theory Spec2Isabelle
  imports Main "HOL-Library.Word"
begin

unbundle bit_operations_syntax

section \<open>The Go library functions that dockrun.go calls\<close>

text \<open>
  Go strings are byte sequences; they are modelled as \<^typ>\<open>string\<close> (lists of
  8-bit characters). Go's \<open>int\<close> is taken to be 64 bits wide (amd64), which only matters
  for the range check of \<open>strconv.Atoi\<close>.
\<close>

subsection \<open>strings\<close>

definition HasPrefix :: "string \<Rightarrow> string \<Rightarrow> bool" where
  "HasPrefix s pre = (take (length pre) s = pre)"

text \<open>\<open>strings.Contains(s, substr)\<close>: \<open>substr\<close> occurs in \<open>s\<close> as a contiguous block.\<close>

fun Contains :: "string \<Rightarrow> string \<Rightarrow> bool" where
  "Contains [] substr = (substr = [])"
| "Contains (c # cs) substr = (HasPrefix (c # cs) substr \<or> Contains cs substr)"

text \<open>
  \<open>strings.Trim(s, cutset)\<close> for an ASCII cutset: every leading and every trailing byte
  that belongs to the cutset is removed.
\<close>

definition TrimLeft :: "string \<Rightarrow> string \<Rightarrow> string" where
  "TrimLeft s cutset = dropWhile (\<lambda>c. c \<in> set cutset) s"

definition TrimRight :: "string \<Rightarrow> string \<Rightarrow> string" where
  "TrimRight s cutset = rev (dropWhile (\<lambda>c. c \<in> set cutset) (rev s))"

definition Trim :: "string \<Rightarrow> string \<Rightarrow> string" where
  "Trim s cutset = TrimRight (TrimLeft s cutset) cutset"

subsection \<open>strconv\<close>

definition isDigit :: "char \<Rightarrow> bool" where
  "isDigit c = (48 \<le> (of_char c :: nat) \<and> (of_char c :: nat) \<le> 57)"

definition digitVal :: "char \<Rightarrow> int" where
  "digitVal c = of_char c - 48"

fun decimal :: "int \<Rightarrow> string \<Rightarrow> int" where
  "decimal n [] = n"
| "decimal n (c # cs) = decimal (n * 10 + digitVal c) cs"

text \<open>
  \<open>strconv.Atoi(s)\<close>: an optional sign, then at least one decimal digit and nothing
  else; the value has to fit the 64-bit \<open>int\<close>. \<open>None\<close> is the non-nil error
  (\<open>ErrSyntax\<close> or \<open>ErrRange\<close>).
\<close>

definition Atoi :: "string \<Rightarrow> int option" where
  "Atoi s =
     (let neg = (s \<noteq> [] \<and> hd s = CHR ''-'');
          ds = (if s \<noteq> [] \<and> (hd s = CHR ''-'' \<or> hd s = CHR ''+'') then tl s else s)
      in if ds = [] \<or> \<not> list_all isDigit ds then None
         else let n = (if neg then - decimal 0 ds else decimal 0 ds)
              in if n < - (2 ^ 63) \<or> 2 ^ 63 - 1 < n then None else Some n)"

subsection \<open>syscall and os/exec\<close>

text \<open>
  \<open>syscall.WaitStatus\<close> is a \<open>uint32\<close>. On Linux \<open>Exited\<close> tests the low seven bits
  and \<open>ExitStatus\<close> is bits 8 to 15, or \<open>-1\<close> for a process that did not exit by itself
  (killed by a signal, stopped).
\<close>

type_synonym WaitStatus = "32 word"

definition Exited :: "WaitStatus \<Rightarrow> bool" where
  "Exited w = (w AND 0x7F = 0x00)"

definition ExitStatus :: "WaitStatus \<Rightarrow> int" where
  "ExitStatus w = (if \<not> Exited w then - 1 else uint (drop_bit 8 w) AND 0xFF)"

text \<open>
  The \<open>error\<close> values that \<open>cmd.CombinedOutput()\<close> can return: an \<open>*exec.ExitError\<close>,
  which carries the wait status of the process (its \<open>Sys()\<close>), or any other error (the
  command was not found, could not be started, its output could not be read). Both carry
  the text of their \<open>Error()\<close> method.
\<close>

datatype go_error = ExitError WaitStatus string | OtherError string

fun ErrorText :: "go_error \<Rightarrow> string" where
  "ErrorText (ExitError ws msg) = msg"
| "ErrorText (OtherError msg) = msg"

text \<open>\<open>exec.Command(name, arg...)\<close> is the argument vector it will run.\<close>

type_synonym Cmd = "string list"

definition Command :: "string \<Rightarrow> string list \<Rightarrow> Cmd" where
  "Command name arg = name # arg"

text \<open>\<open>os.Signal\<close> values; \<open>signalName\<close> is their \<open>String()\<close> method.\<close>

datatype signal = Interrupt | Kill | OtherSignal string

fun signalName :: "signal \<Rightarrow> string" where
  "signalName Interrupt = ''interrupt''"
| "signalName Kill = ''killed''"
| "signalName (OtherSignal name) = name"

subsection \<open>fmt\<close>

fun formatNat :: "nat \<Rightarrow> string" where
  "formatNat n =
     (if n < 10 then [char_of (48 + n)]
      else formatNat (n div 10) @ [char_of (48 + n mod 10)])"

text \<open>The verb \<open>%d\<close> applied to an \<open>int\<close>.\<close>

definition formatInt :: "int \<Rightarrow> string" where
  "formatInt i = (if i < 0 then CHR ''-'' # formatNat (nat (- i)) else formatNat (nat i))"

text \<open>The verb \<open>%s\<close> applied to an \<open>error\<close>, which may be nil.\<close>

fun formatError :: "go_error option \<Rightarrow> string" where
  "formatError None = ''%!s(<nil>)''"
| "formatError (Some e) = ErrorText e"

text \<open>
  \<open>fmt.Printf(format)\<close> with an empty operand list, after \<open>doPrintf\<close> of Go 1.22:
  text is copied up to the next \<open>%\<close>; after it come flags, an argument index
  \<open>[n]\<close>, a width, a precision and the verb. With no operand to consume, every verb
  other than \<open>%\<close> writes a \<open>%!verb(MISSING)\<close> or \<open>%!verb(BADINDEX)\<close> notice, a
  \<open>*\<close> writes \<open>%!(BADWIDTH)\<close> or \<open>%!(BADPREC)\<close>, and a format that ends inside a
  directive writes \<open>%!(NOVERB)\<close>. Positions are byte indices into the format, as in the
  Go code; \<open>printVerb format i\<close> handles the directive whose \<open>%\<close> is just before
  index \<open>i\<close> and returns the text written and the index where scanning resumes.
  \<open>DecodeRuneInString\<close> returns the UTF-8 bytes that \<open>writeRune\<close> emits for the decoded
  rune (the bytes read when they are valid UTF-8, the replacement rune otherwise) and the
  number of bytes read.
\<close>

definition tooLarge :: "int \<Rightarrow> bool" where
  "tooLarge x = (x > 1000000 \<or> x < - 1000000)"

fun parsenum_loop :: "string \<Rightarrow> nat \<Rightarrow> nat \<Rightarrow> int \<Rightarrow> bool \<Rightarrow> int \<times> bool \<times> nat" where
  "parsenum_loop [] end newi num isnum = (num, isnum, newi)"
| "parsenum_loop (c # cs) end newi num isnum =
     (if isDigit c
      then if tooLarge num then (0, False, end)
           else parsenum_loop cs end (Suc newi) (num * 10 + digitVal c) True
      else (num, isnum, newi))"

definition parsenum :: "string \<Rightarrow> nat \<Rightarrow> nat \<Rightarrow> int \<times> bool \<times> nat" where
  "parsenum s start end =
     (if start \<ge> end then (0, False, end)
      else parsenum_loop (take (end - start) (drop start s)) end start 0 False)"

definition parseArgNumber :: "string \<Rightarrow> int \<times> nat \<times> bool" where
  "parseArgNumber format =
     (if length format < 3 then (0, 1, False)
      else let i = Suc (length (takeWhile (\<lambda>c. c \<noteq> CHR '']'') (tl format)))
           in if i < length format
              then (let (width, ok, newi) = parsenum format 1 i
                    in if \<not> ok \<or> newi \<noteq> i then (0, i + 1, False) else (width - 1, i + 1, True))
              else (0, 1, False))"

definition argNumber :: "string \<Rightarrow> nat \<Rightarrow> bool \<Rightarrow> nat \<times> bool \<times> bool" where
  "argNumber format i goodArgNum =
     (if length format \<le> i \<or> format ! i \<noteq> CHR ''[''
      then (i, False, goodArgNum)
      else let (index, wid, ok) = parseArgNumber (drop i format)
           in (i + wid, ok, False))"

definition contByte :: "char \<Rightarrow> nat \<Rightarrow> nat \<Rightarrow> bool" where
  "contByte c lo hi = (lo \<le> (of_char c :: nat) \<and> (of_char c :: nat) \<le> hi)"

definition RuneError :: string where
  "RuneError = [CHR 0xEF, CHR 0xBF, CHR 0xBD]"

definition DecodeRuneInString :: "string \<Rightarrow> string \<times> nat" where
  "DecodeRuneInString s =
     (case s of [] \<Rightarrow> (RuneError, 0)
      | s0 # _ \<Rightarrow>
        (let b = (of_char s0 :: nat);
             sz = (if b < 0x80 then 1 else if b < 0xC2 then 0 else if b < 0xE0 then 2
                   else if b < 0xF0 then 3 else if b < 0xF5 then 4 else 0);
             lo = (if b = 0xE0 then 0xA0 else if b = 0xF0 then 0x90 else 0x80);
             hi = (if b = 0xED then 0x9F else if b = 0xF4 then 0x8F else 0xBF)
         in if sz = 1 then ([s0], 1)
            else if sz = 0 then (RuneError, 1)
            else if length s < sz then (RuneError, 1)
            else if \<not> contByte (s ! 1) lo hi then (RuneError, 1)
            else if sz \<le> 2 then (take 2 s, 2)
            else if \<not> contByte (s ! 2) 0x80 0xBF then (RuneError, 1)
            else if sz \<le> 3 then (take 3 s, 3)
            else if \<not> contByte (s ! 3) 0x80 0xBF then (RuneError, 1)
            else (take 4 s, 4)))"

definition isFlag :: "char \<Rightarrow> bool" where
  "isFlag c = (c \<in> set ''#0+- '')"

definition printVerb :: "string \<Rightarrow> nat \<Rightarrow> string \<times> nat" where
  "printVerb format i0 =
     (let end = length format;
          i1 = i0 + length (takeWhile isFlag (drop i0 format));
          (i2, afterIndex2, good2) = argNumber format i1 True;
          (buf3, i3, afterIndex3, good3) =
            (if i2 < end \<and> format ! i2 = CHR ''*''
             then (''%!(BADWIDTH)'', i2 + 1, False, good2)
             else let (wid, widPresent, i) = parsenum format i2 end
                  in ([], i, afterIndex2, good2 \<and> \<not> (afterIndex2 \<and> widPresent)));
          (buf4, i4, afterIndex4, good4) =
            (if i3 + 1 \<le> end \<and> format ! i3 = CHR ''.''
             then let (i, afterIndex, good) = argNumber format (i3 + 1) (good3 \<and> \<not> afterIndex3)
                  in if i < end \<and> format ! i = CHR ''*''
                     then (buf3 @ ''%!(BADPREC)'', i + 1, False, good)
                     else let (prec, precPresent, i') = parsenum format i end
                          in (buf3, i', afterIndex, good)
             else (buf3, i3, afterIndex3, good3));
          (i5, afterIndex5, good5) =
            (if \<not> afterIndex4 then argNumber format i4 good4 else (i4, afterIndex4, good4))
      in if i5 \<ge> end then (buf4 @ ''%!(NOVERB)'', end)
         else let (verb, size) = DecodeRuneInString (drop i5 format)
              in (buf4 @ (if verb = ''%'' then ''%''
                          else if \<not> good5 then ''%!'' @ verb @ ''(BADINDEX)''
                          else ''%!'' @ verb @ ''(MISSING)''),
                  i5 + size))"

fun doPrintf :: "string \<Rightarrow> string" where
  "doPrintf [] = []"
| "doPrintf (c # cs) =
     (if c \<noteq> CHR ''%'' then c # doPrintf cs
      else let (buf, i) = printVerb cs 0 in buf @ doPrintf (drop i cs))"


section \<open>dockrun.go\<close>

subsection \<open>The process and its surroundings\<close>

text \<open>
  What a run leaves behind: the external commands it started, in the order they were
  started, each marked with whether the main goroutine ran it and waited for it or the
  background goroutine of \<open>main\<close> did, and the text written to standard output.
\<close>

datatype mode = Synchronous | Goroutine

record world =
  invoked :: "(mode \<times> Cmd) list"
  stdout :: string

text \<open>
  What the surroundings decide: the arguments \<open>os.Args[1:]\<close>; what the \<open>k\<close>-th command
  started by the process returns from \<open>CombinedOutput\<close> (its combined output and its
  error, \<open>None\<close> for nil); and what the \<open>select\<close> of \<open>waitForResult\<close> receives, in order:
  a signal from the signal channel or the value of the wait result channel. An event
  list without a \<open>WaitEvent\<close> is a run in which \<open>docker wait\<close> never returns.
\<close>

type_synonym runtime = "nat \<Rightarrow> Cmd \<Rightarrow> string \<times> go_error option"

datatype event = SignalEvent signal | WaitEvent

record env =
  Args :: "string list"
  exec :: runtime
  events :: "event list"

text \<open>How the process ends: \<open>os.Exit(code)\<close>, or never (blocked in the \<open>select\<close>).\<close>

datatype outcome = Exit int | Blocked


definition Print :: "string \<Rightarrow> world \<Rightarrow> world" where
  "Print s w = w\<lparr>stdout := stdout w @ s\<rparr>"

definition Println :: "string \<Rightarrow> world \<Rightarrow> world" where
  "Println s w = Print (s @ ''\<newline>'') w"

definition CombinedOutput ::
  "runtime \<Rightarrow> mode \<Rightarrow> Cmd \<Rightarrow> world \<Rightarrow> (string \<times> go_error option) \<times> world" where
  "CombinedOutput rt m cmd w =
     (rt (length (invoked w)) cmd, w\<lparr>invoked := invoked w @ [(m, cmd)]\<rparr>)"

subsection \<open>Running a command\<close>

record cmdResult =
  output' :: string
  exitCode :: int
  err :: "go_error option"

text \<open>
  \<open>getExitCode\<close>: the type assertion to \<open>*exec.ExitError\<close> decides; the inner condition
  tests the same \<open>ok\<close> again, and the wait status of an \<open>ExitError\<close> is a
  \<open>syscall.WaitStatus\<close>.
\<close>

fun getExitCode :: "go_error \<Rightarrow> int \<times> go_error option" where
  "getExitCode (ExitError procExit msg) = (ExitStatus procExit, None)"
| "getExitCode (OtherError msg) = (0, Some (OtherError ''failed to get exit code''))"

definition runCommandWithOutput ::
  "runtime \<Rightarrow> mode \<Rightarrow> Cmd \<Rightarrow> world \<Rightarrow> (string \<times> int \<times> go_error option) \<times> world" where
  "runCommandWithOutput rt m cmd w =
     (let ((out, e), w') = CombinedOutput rt m cmd w;
          code = (case e of
                    None \<Rightarrow> 0
                  | Some e' \<Rightarrow>
                      (let (code', exiterr) = getExitCode e'
                       in if exiterr \<noteq> None then 127 else code'))
      in ((out, code, e), w'))"

definition runCommandWithOutputResult ::
  "runtime \<Rightarrow> mode \<Rightarrow> Cmd \<Rightarrow> world \<Rightarrow> cmdResult \<times> world" where
  "runCommandWithOutputResult rt m cmd w =
     (let ((out, code, e), w') = runCommandWithOutput rt m cmd w
      in (\<lparr>output' = out, exitCode = code, err = e\<rparr>, w'))"

text \<open>
  \<open>go runCommandSendResult(cmd, c)\<close>: the command is started by the background
  goroutine; the result is the value that the channel \<open>c\<close> will hold.
\<close>

definition runCommandSendResult :: "runtime \<Rightarrow> Cmd \<Rightarrow> world \<Rightarrow> cmdResult \<times> world" where
  "runCommandSendResult rt cmd w = runCommandWithOutputResult rt Goroutine cmd w"

subsection \<open>The selection loop\<close>

text \<open>
  \<open>waitForResult\<close>: the two channels are the event list and the value \<open>waitCmd\<close> that
  the result channel yields at a \<open>WaitEvent\<close>. The variable \<open>action\<close> is declared
  outside the loop and the \<open>switch\<close> has no default case, so a signal that is neither
  \<open>os.Interrupt\<close> nor \<open>os.Kill\<close> leaves it as it was. \<open>None\<close>: the loop never returns.
\<close>

fun waitForResult_loop ::
  "runtime \<Rightarrow> string \<Rightarrow> string \<Rightarrow> event list \<Rightarrow> cmdResult \<Rightarrow> world \<Rightarrow> cmdResult option \<times> world" where
  "waitForResult_loop rt containerID action [] waitCmd w = (None, w)"
| "waitForResult_loop rt containerID action (WaitEvent # evs) waitCmd w = (Some waitCmd, w)"
| "waitForResult_loop rt containerID action (SignalEvent sig # evs) waitCmd w =
     (let action' = (case sig of Interrupt \<Rightarrow> ''stop'' | Kill \<Rightarrow> ''kill'' | _ \<Rightarrow> action);
          w1 = Print (''Received signal: '' @ signalName sig @ ''; cleaning up\<newline>'') w;
          ((out, _, e), w2) =
            runCommandWithOutput rt Synchronous (Command ''docker'' [action', containerID]) w1;
          w3 = (if e \<noteq> None \<or> Contains out ''Error''
                then Print (''stopping container via signal '' @ signalName sig @ '' failed\<newline>'') w2
                else w2)
      in waitForResult_loop rt containerID action' evs waitCmd w3)"

definition waitForResult ::
  "runtime \<Rightarrow> string \<Rightarrow> event list \<Rightarrow> cmdResult \<Rightarrow> world \<Rightarrow> cmdResult option \<times> world" where
  "waitForResult rt containerID evs waitCmd w = waitForResult_loop rt containerID [] evs waitCmd w"

subsection \<open>Argument validation\<close>

text \<open>The \<open>range\<close> loop of \<open>validateArgs\<close>, with the flag \<open>failed\<close>.\<close>

fun validateArgs_loop :: "string list \<Rightarrow> bool \<Rightarrow> world \<Rightarrow> bool \<times> world" where
  "validateArgs_loop [] failed w = (failed, w)"
| "validateArgs_loop (val # rest) failed w =
     (let (failed1, w1) =
            (if val = ''-i'' then (True, Println ''ERROR: dockrun doesn't support -i'' w)
             else (failed, w));
          (failed2, w2) =
            (if val = ''-a'' then (True, Print ''ERROR: dockrun doesn't support -a'' w1)
             else (failed1, w1))
      in validateArgs_loop rest failed2 w2)"

text \<open>\<open>validateArgs\<close> returns \<open>Some 1\<close> when it ends the process with \<open>os.Exit(1)\<close>.\<close>

definition validateArgs :: "string list \<Rightarrow> world \<Rightarrow> int option \<times> world" where
  "validateArgs args w =
     (let (failed0, w0) =
            (if length args < 1
             then (True,
                   Println ''OPTIONS - same options as docker run, without -a & -i''
                     (Println ''dockrun [OPTIONS] IMAGE [COMMAND]\<newline>'' w))
             else (False, w));
          (failed, w1) = validateArgs_loop args failed0 w0
      in if failed then (Some 1, w1) else (None, w1))"

subsection \<open>main\<close>

text \<open>Lines 157 to 173: the logs, the removal and the exit.\<close>

definition main_cleanup :: "runtime \<Rightarrow> string \<Rightarrow> int \<Rightarrow> world \<Rightarrow> outcome \<times> world" where
  "main_cleanup rt containerID finalExitCode w =
     (let ((logsOutput, _, logserr), w1) =
            runCommandWithOutput rt Synchronous (Command ''docker'' [''logs'', containerID]) w;
          w2 = (if logserr \<noteq> None \<or> Contains logsOutput ''No such container''
                then Print ''ERROR: docker logs failed\<newline>''
                       (Print (''ERROR: docker logs: '' @ logsOutput @ '' '' @ formatError logserr
                               @ ''\<newline>'') w1)
                else Print (doPrintf logsOutput) w1);
          ((rmOutput, _, rmerr), w3) =
            runCommandWithOutput rt Synchronous (Command ''docker'' [''rm'', containerID]) w2;
          w4 = (if rmerr \<noteq> None \<or> Contains rmOutput ''Error''
                then Print ''ERROR: docker rm failed\<newline>''
                       (Print (''ERROR: docker rm: '' @ rmOutput @ '' '' @ formatError rmerr
                               @ ''\<newline>'') w3)
                else w3)
      in (Exit finalExitCode, w4))"

text \<open>Lines 132 to 140: the second \<open>docker wait\<close> when the first result carries an error.\<close>

definition main_rewait ::
  "runtime \<Rightarrow> string \<Rightarrow> cmdResult \<Rightarrow> world \<Rightarrow> (string \<times> go_error option) \<times> world" where
  "main_rewait rt containerID waitResult w =
     (let waitOutput = output' waitResult;
          waiterr = err waitResult
      in if waiterr \<noteq> None
         then let ((waitOutput', _, waiterr'), w') =
                    runCommandWithOutput rt Synchronous (Command ''docker'' [''wait'', containerID]) w
              in ((waitOutput', waiterr'), w')
         else ((waitOutput, waiterr), w))"

text \<open>Lines 143 to 155, then the cleanup.\<close>

definition main_exitcode ::
  "runtime \<Rightarrow> string \<Rightarrow> string \<Rightarrow> go_error option \<Rightarrow> world \<Rightarrow> outcome \<times> world" where
  "main_exitcode rt containerID waitOutput waiterr w =
     (if waiterr \<noteq> None \<or> Contains waitOutput ''Error''
      then (Exit 1,
            Print ''ERROR: docker wait failed\<newline>''
              (Print (''ERROR: docker wait: '' @ waitOutput @ '' '' @ formatError waiterr
                      @ ''\<newline>'') w))
      else let waitOutput' = Trim waitOutput ''\<newline>''
           in case Atoi waitOutput' of
                None \<Rightarrow>
                  (Exit 1,
                   Print ''ERROR: failed to convert exit code to int\<newline>''
                     (Println waitOutput' w))
              | Some finalExitCode \<Rightarrow> main_cleanup rt containerID finalExitCode w)"

text \<open>Lines 124 to 130, then the rest.\<close>

definition main_wait :: "env \<Rightarrow> string \<Rightarrow> world \<Rightarrow> outcome \<times> world" where
  "main_wait en containerID w =
     (let (waitCmdRes, w1) =
            runCommandSendResult (exec en) (Command ''docker'' [''wait'', containerID]) w
      in case waitForResult (exec en) containerID (events en) waitCmdRes w1 of
           (None, w2) \<Rightarrow> (Blocked, w2)
         | (Some waitResult, w2) \<Rightarrow>
             (let ((waitOutput, waiterr), w3) = main_rewait (exec en) containerID waitResult w2
              in main_exitcode (exec en) containerID waitOutput waiterr w3))"

text \<open>Lines 102 to 122, then the rest. The process starts with nothing run or written.\<close>

definition main :: "env \<Rightarrow> outcome \<times> world" where
  "main en =
     (let defaultArgs = [''run'', ''-d''];
          args = Args en
      in case validateArgs args \<lparr>invoked = [], stdout = []\<rparr> of
           (Some code, w) \<Rightarrow> (Exit code, w)
         | (None, w) \<Rightarrow>
             (let finalArgs = defaultArgs @ args;
                  ((out, code, e), w1) =
                    runCommandWithOutput (exec en) Synchronous (Command ''docker'' finalArgs) w
              in if e \<noteq> None
                 then (Exit 1,
                       Print (''ERROR docker exited with exit code: '' @ formatInt code
                              @ ''\<newline>'')
                         (Print (''docker run: '' @ out) w1))
                 else let containerID = Trim out ''\<newline>''
                      in if length containerID < 4
                         then (Exit 1,
                               Print ''ERROR: docker container ID is too small, possibly invalid'' w1)
                         else main_wait en containerID w1))"


section \<open>Vocabulary for runs\<close>

text \<open>
  The names below describe a run from the outside, in terms of what the surroundings
  answer. The first command a run starts is \<open>docker run -d\<close> with the arguments; the
  handle is what \<open>main\<close> makes of its output. A run \<open>launches\<close> when the arguments are
  accepted, \<open>docker run\<close> returns no error and the handle has at least four bytes; it
  \<open>completes\<close> when the selection loop receives the wait result.
\<close>

definition accepted :: "string list \<Rightarrow> bool" where
  "accepted args = (args \<noteq> [] \<and> ''-i'' \<notin> set args \<and> ''-a'' \<notin> set args)"

definition runCmd :: "env \<Rightarrow> Cmd" where
  "runCmd en = ''docker'' # ''run'' # ''-d'' # Args en"

definition handle :: "env \<Rightarrow> string" where
  "handle en = Trim (fst (exec en 0 (runCmd en))) ''\<newline>''"

definition launches :: "env \<Rightarrow> bool" where
  "launches en =
     (accepted (Args en) \<and> snd (exec en 0 (runCmd en)) = None \<and> 4 \<le> length (handle en))"

definition completes :: "env \<Rightarrow> bool" where
  "completes en = (WaitEvent \<in> set (events en))"

text \<open>The signals that the selection loop receives before the wait result.\<close>

fun received :: "event list \<Rightarrow> signal list" where
  "received [] = []"
| "received (WaitEvent # evs) = []"
| "received (SignalEvent sig # evs) = sig # received evs"

text \<open>The value of \<open>action\<close> after each signal of a list, starting from a given value.\<close>

fun actions :: "string \<Rightarrow> signal list \<Rightarrow> string list" where
  "actions action [] = []"
| "actions action (sig # sigs) =
     (let action' = (case sig of Interrupt \<Rightarrow> ''stop'' | Kill \<Rightarrow> ''kill'' | _ \<Rightarrow> action)
      in action' # actions action' sigs)"

definition control :: "string \<Rightarrow> string \<Rightarrow> mode \<times> Cmd" where
  "control containerID action = (Synchronous, [''docker'', action, containerID])"

definition waitCmd :: "env \<Rightarrow> Cmd" where
  "waitCmd en = [''docker'', ''wait'', handle en]"

definition logsCmd :: "env \<Rightarrow> Cmd" where
  "logsCmd en = [''docker'', ''logs'', handle en]"

definition rmCmd :: "env \<Rightarrow> Cmd" where
  "rmCmd en = [''docker'', ''rm'', handle en]"

text \<open>
  The answer to the background \<open>docker wait\<close> (the second command of a run), the answer
  to a \<open>docker wait\<close> started right after the selection loop, and the one of the two
  that \<open>main\<close> goes on with.
\<close>

definition primary :: "env \<Rightarrow> string \<times> go_error option" where
  "primary en = exec en 1 (waitCmd en)"

definition fallback :: "env \<Rightarrow> string \<times> go_error option" where
  "fallback en = exec en (2 + length (received (events en))) (waitCmd en)"

definition resolved :: "env \<Rightarrow> string \<times> go_error option" where
  "resolved en = (if snd (primary en) \<noteq> None then fallback en else primary en)"

text \<open>The exit code that lines 143 to 155 read from a wait result, if any.\<close>

definition extracted :: "string \<Rightarrow> go_error option \<Rightarrow> int option" where
  "extracted waitOutput waiterr =
     (if waiterr \<noteq> None \<or> Contains waitOutput ''Error'' then None
      else Atoi (Trim waitOutput ''\<newline>''))"

text \<open>The commands of a trace that call a given docker subcommand.\<close>

definition calls :: "string \<Rightarrow> (mode \<times> Cmd) list \<Rightarrow> (mode \<times> Cmd) list" where
  "calls verb tr = filter (\<lambda>ic. take 2 (snd ic) = [''docker'', verb]) tr"

text \<open>
  The words of the specification for the handle: the combined output with the trailing
  newline removed.
\<close>

definition trimTrailingNewline :: "string \<Rightarrow> string" where
  "trimTrailingNewline s = (if s \<noteq> [] \<and> last s = CHR 0x0A then butlast s else s)"

subsection \<open>Sample runs\<close>

text \<open>A runtime that answers the \<open>k\<close>-th command with the \<open>k\<close>-th entry of a list.\<close>

definition scripted :: "(string \<times> go_error option) list \<Rightarrow> runtime" where
  "scripted answers k cmd = (if k < length answers then answers ! k else ([], None))"

text \<open>The workload exits with 0 and has printed a line.\<close>

definition run_plain :: env where
  "run_plain =
     \<lparr>Args = [''busybox'', ''true''],
      exec = scripted [(''4f2a9c01b7de\<newline>'', None), (''0'', None),
                       (''hello\<newline>'', None), (''4f2a9c01b7de\<newline>'', None)],
      events = [WaitEvent]\<rparr>"

text \<open>
  An interrupt arrives, \<open>docker stop\<close> fails, the background wait is killed with the
  signal and the second wait reports 137.
\<close>

definition run_interrupted :: env where
  "run_interrupted =
     \<lparr>Args = [''busybox'', ''sleep'', ''60''],
      exec = scripted [(''4f2a9c01b7de\<newline>'', None),
                       ([], Some (ExitError 0x0002 ''signal: interrupt'')),
                       (''Error response from daemon'', Some (ExitError 0x0100 ''exit status 1'')),
                       (''137\<newline>'', None), ([], None), (''4f2a9c01b7de\<newline>'', None)],
      events = [SignalEvent Interrupt, WaitEvent]\<rparr>"

text \<open>The container is gone when the logs are asked for, and the removal fails too.\<close>

definition run_cleanup_fails :: env where
  "run_cleanup_fails =
     \<lparr>Args = [''busybox'', ''false''],
      exec = scripted [(''4f2a9c01b7de\<newline>'', None), (''3\<newline>'', None),
                       (''Error: No such container: 4f2a9c01b7de\<newline>'', None),
                       (''Error: No such container: 4f2a9c01b7de\<newline>'',
                        Some (ExitError 0x0100 ''exit status 1''))],
      events = [WaitEvent]\<rparr>"

text \<open>The workload has printed \<open>100%\<close>.\<close>

definition run_logs_percent :: env where
  "run_logs_percent =
     \<lparr>Args = [''busybox'', ''printf'', ''100%%''],
      exec = scripted [(''4f2a9c01b7de\<newline>'', None), (''0\<newline>'', None), (''100%'', None)],
      events = [WaitEvent]\<rparr>"

text \<open>The output of \<open>docker run\<close> starts with an empty line.\<close>

definition run_leading_newline :: env where
  "run_leading_newline =
     \<lparr>Args = [''busybox''],
      exec = scripted [(''\<newline>4f2a9c01b7de\<newline>'', None), (''0\<newline>'', None)],
      events = [WaitEvent]\<rparr>"

definition run_interactive :: env where
  "run_interactive =
     \<lparr>Args = [''-i'', ''busybox''], exec = scripted [], events = []\<rparr>"

text \<open>Two signals, then the wait result; every \<open>docker stop\<close> and \<open>docker kill\<close> fails.\<close>

definition two_signals :: "event list" where
  "two_signals = [SignalEvent Interrupt, SignalEvent Kill, WaitEvent, SignalEvent Kill]"

definition failing :: runtime where
  "failing = scripted (replicate 8 (''Error response from daemon'', Some (OtherError ''exec: not started'')))"

section \<open>Properties of the stages\<close>

lemma invoked_Print [simp]: "invoked (Print s w) = invoked w"
  by (simp add: Print_def)

lemma stdout_Print [simp]: "stdout (Print s w) = stdout w @ s"
  by (simp add: Print_def)

lemma invoked_Println [simp]: "invoked (Println s w) = invoked w"
  by (simp add: Println_def)

lemma stdout_Println [simp]: "stdout (Println s w) = stdout w @ s @ ''\<newline>''"
  by (simp add: Println_def)

lemma runCommandWithOutput_world [simp]:
  "snd (runCommandWithOutput rt m cmd w) = w\<lparr>invoked := invoked w @ [(m, cmd)]\<rparr>"
  by (simp add: runCommandWithOutput_def CombinedOutput_def split_beta)

lemma runCommandWithOutput_out [simp]:
  "fst (fst (runCommandWithOutput rt m cmd w)) = fst (rt (length (invoked w)) cmd)"
  by (simp add: runCommandWithOutput_def CombinedOutput_def split_beta)

lemma runCommandWithOutput_err [simp]:
  "snd (snd (fst (runCommandWithOutput rt m cmd w))) = snd (rt (length (invoked w)) cmd)"
  by (simp add: runCommandWithOutput_def CombinedOutput_def split_beta)

lemma runCommandSendResult_world [simp]:
  "snd (runCommandSendResult rt cmd w) = w\<lparr>invoked := invoked w @ [(Goroutine, cmd)]\<rparr>"
  by (simp add: runCommandSendResult_def runCommandWithOutputResult_def split_beta)

lemma runCommandSendResult_output [simp]:
  "output' (fst (runCommandSendResult rt cmd w)) = fst (rt (length (invoked w)) cmd)"
  by (simp add: runCommandSendResult_def runCommandWithOutputResult_def split_beta)

lemma runCommandSendResult_err [simp]:
  "err (fst (runCommandSendResult rt cmd w)) = snd (rt (length (invoked w)) cmd)"
  by (simp add: runCommandSendResult_def runCommandWithOutputResult_def split_beta)

lemma waitForResult_loop_result:
  "fst (waitForResult_loop rt cid a evs r w) = (if WaitEvent \<in> set evs then Some r else None)"
proof (induction evs arbitrary: a w)
  case (Cons ev evs)
  then show ?case by (cases ev) (simp_all add: Let_def split_beta)
qed simp

lemma waitForResult_loop_invoked:
  "invoked (snd (waitForResult_loop rt cid a evs r w)) =
     invoked w @ map (control cid) (actions a (received evs))"
proof (induction evs arbitrary: a w)
  case (Cons ev evs)
  then show ?case by (cases ev) (simp_all add: Let_def split_beta control_def Command_def)
qed simp

lemma waitForResult_result:
  "fst (waitForResult rt cid evs r w) = (if WaitEvent \<in> set evs then Some r else None)"
  by (simp add: waitForResult_def waitForResult_loop_result)

lemma waitForResult_invoked:
  "invoked (snd (waitForResult rt cid evs r w)) =
     invoked w @ map (control cid) (actions [] (received evs))"
  by (simp add: waitForResult_def waitForResult_loop_invoked)

lemma length_actions [simp]: "length (actions a sigs) = length sigs"
  by (induction sigs arbitrary: a) (simp_all add: Let_def)

lemma main_cleanup_outcome: "fst (main_cleanup rt cid n w) = Exit n"
  by (simp add: main_cleanup_def Let_def split_beta)

lemma main_cleanup_invoked:
  "invoked (snd (main_cleanup rt cid n w)) =
     invoked w @ [(Synchronous, [''docker'', ''logs'', cid]), (Synchronous, [''docker'', ''rm'', cid])]"
  by (simp add: main_cleanup_def Let_def split_beta Command_def)

lemma main_rewait_result:
  "fst (main_rewait rt cid r w) =
     (if err r \<noteq> None then rt (length (invoked w)) [''docker'', ''wait'', cid]
      else (output' r, err r))"
  by (simp add: main_rewait_def Let_def split_beta Command_def prod_eq_iff)

lemma main_rewait_invoked:
  "invoked (snd (main_rewait rt cid r w)) =
     invoked w @ (if err r \<noteq> None then [(Synchronous, [''docker'', ''wait'', cid])] else [])"
  by (simp add: main_rewait_def Let_def split_beta Command_def)

lemma main_exitcode_outcome:
  "fst (main_exitcode rt cid wo we w) =
     (case extracted wo we of None \<Rightarrow> Exit 1 | Some n \<Rightarrow> Exit n)"
  by (simp add: main_exitcode_def extracted_def Let_def main_cleanup_outcome split: option.splits)

lemma main_exitcode_invoked:
  "invoked (snd (main_exitcode rt cid wo we w)) =
     invoked w @ (case extracted wo we of None \<Rightarrow> []
                  | Some n \<Rightarrow> [(Synchronous, [''docker'', ''logs'', cid]),
                                (Synchronous, [''docker'', ''rm'', cid])])"
  by (simp add: main_exitcode_def extracted_def Let_def main_cleanup_invoked split: option.splits)


lemma validateArgs_loop_Cons:
  "validateArgs_loop (val # rest) f w =
     validateArgs_loop rest (f \<or> val = ''-i'' \<or> val = ''-a'')
       (if val = ''-i'' then Println ''ERROR: dockrun doesn't support -i'' w
        else if val = ''-a'' then Print ''ERROR: dockrun doesn't support -a'' w
        else w)"
  by (auto simp: Let_def)

lemma validateArgs_loop_failed:
  "fst (validateArgs_loop args f w) = (f \<or> ''-i'' \<in> set args \<or> ''-a'' \<in> set args)"
  by (induction args arbitrary: f w) (auto simp: validateArgs_loop_Cons simp del: validateArgs_loop.simps(2))

lemma validateArgs_loop_invoked:
  "invoked (snd (validateArgs_loop args f w)) = invoked w"
  by (induction args arbitrary: f w) (simp_all add: validateArgs_loop_Cons del: validateArgs_loop.simps(2))

lemma validateArgs_loop_clean:
  "''-i'' \<notin> set args \<Longrightarrow> ''-a'' \<notin> set args \<Longrightarrow> snd (validateArgs_loop args f w) = w"
  by (induction args arbitrary: f w) (auto simp: validateArgs_loop_Cons simp del: validateArgs_loop.simps(2))

lemma validateArgs_loop_stdout_mono:
  "length (stdout w) \<le> length (stdout (snd (validateArgs_loop args f w)))"
proof (induction args arbitrary: f w)
  case (Cons val rest)
  let ?w = "if val = ''-i'' then Println ''ERROR: dockrun doesn't support -i'' w
            else if val = ''-a'' then Print ''ERROR: dockrun doesn't support -a'' w
            else w"
  have "length (stdout w) \<le> length (stdout ?w)" by simp
  also have "\<dots> \<le> length (stdout (snd (validateArgs_loop rest (f \<or> val = ''-i'' \<or> val = ''-a'') ?w)))"
    by (rule Cons.IH)
  finally show ?case by (simp only: validateArgs_loop_Cons)
qed simp

lemma validateArgs_loop_stdout:
  "''-i'' \<in> set args \<or> ''-a'' \<in> set args \<Longrightarrow> stdout (snd (validateArgs_loop args f w)) \<noteq> []"
proof (induction args arbitrary: f w)
  case (Cons val rest)
  let ?w = "if val = ''-i'' then Println ''ERROR: dockrun doesn't support -i'' w
            else if val = ''-a'' then Print ''ERROR: dockrun doesn't support -a'' w
            else w"
  let ?f = "f \<or> val = ''-i'' \<or> val = ''-a''"
  have "stdout (snd (validateArgs_loop rest ?f ?w)) \<noteq> []"
  proof (cases "val = ''-i'' \<or> val = ''-a''")
    case True
    then have "0 < length (stdout ?w)" by auto
    also have "\<dots> \<le> length (stdout (snd (validateArgs_loop rest ?f ?w)))"
      by (rule validateArgs_loop_stdout_mono)
    finally show ?thesis by simp
  next
    case False
    with Cons.prems have "''-i'' \<in> set rest \<or> ''-a'' \<in> set rest" by auto
    then show ?thesis by (rule Cons.IH)
  qed
  then show ?case by (simp add: validateArgs_loop_Cons del: validateArgs_loop.simps(2))
qed simp

lemma validateArgs_result:
  "fst (validateArgs args w) = (if accepted args then None else Some 1)"
  by (simp add: validateArgs_def accepted_def Let_def split_beta validateArgs_loop_failed)

lemma validateArgs_invoked: "invoked (snd (validateArgs args w)) = invoked w"
  by (simp add: validateArgs_def Let_def split_beta validateArgs_loop_invoked)

lemma validateArgs_accepted: "accepted args \<Longrightarrow> snd (validateArgs args w) = w"
  by (simp add: validateArgs_def accepted_def Let_def split_beta validateArgs_loop_clean)

lemma validateArgs_stdout:
  assumes "\<not> accepted args"
  shows "stdout (snd (validateArgs args w)) \<noteq> []"
proof (cases "args = []")
  case True
  then show ?thesis by (simp add: validateArgs_def Let_def split_beta)
next
  case False
  with assms have "''-i'' \<in> set args \<or> ''-a'' \<in> set args" by (auto simp: accepted_def)
  then have "stdout (snd (validateArgs_loop args False w)) \<noteq> []"
    by (rule validateArgs_loop_stdout)
  with False show ?thesis by (simp add: validateArgs_def Let_def split_beta)
qed

lemma main_rejected:
  assumes "\<not> accepted (Args en)"
  shows "fst (main en) = Exit 1" and "invoked (snd (main en)) = []" and "stdout (snd (main en)) \<noteq> []"
proof -
  obtain r w where v: "validateArgs (Args en) \<lparr>invoked = [], stdout = []\<rparr> = (r, w)"
    by (cases "validateArgs (Args en) \<lparr>invoked = [], stdout = []\<rparr>")
  from assms have r: "r = Some 1"
    using validateArgs_result[of "Args en" "\<lparr>invoked = [], stdout = []\<rparr>"] v by simp
  have m: "main en = (Exit 1, w)" by (simp add: main_def v r)
  show "fst (main en) = Exit 1" by (simp add: m)
  show "invoked (snd (main en)) = []"
    using validateArgs_invoked[of "Args en" "\<lparr>invoked = [], stdout = []\<rparr>"] v by (simp add: m)
  show "stdout (snd (main en)) \<noteq> []"
    using validateArgs_stdout[OF assms, of "\<lparr>invoked = [], stdout = []\<rparr>"] v by (simp add: m)
qed

lemma main_accepted:
  assumes "accepted (Args en)"
  shows "main en =
     (let w1 = \<lparr>invoked = [(Synchronous, runCmd en)], stdout = []\<rparr>;
          r = runCommandWithOutput (exec en) Synchronous (runCmd en) \<lparr>invoked = [], stdout = []\<rparr>
      in if snd (exec en 0 (runCmd en)) \<noteq> None
         then (Exit 1,
               Print (''ERROR docker exited with exit code: '' @ formatInt (fst (snd (fst r)))
                      @ ''\<newline>'')
                 (Print (''docker run: '' @ fst (exec en 0 (runCmd en))) w1))
         else if length (handle en) < 4
              then (Exit 1, Print ''ERROR: docker container ID is too small, possibly invalid'' w1)
              else main_wait en (handle en) w1)"
proof -
  have v: "validateArgs (Args en) \<lparr>invoked = [], stdout = []\<rparr> = (None, \<lparr>invoked = [], stdout = []\<rparr>)"
    using validateArgs_result[of "Args en" "\<lparr>invoked = [], stdout = []\<rparr>"]
          validateArgs_accepted[OF assms, of "\<lparr>invoked = [], stdout = []\<rparr>"] assms
    by (simp add: prod_eq_iff)
  show ?thesis
    by (simp add: main_def v Let_def split_beta Command_def runCmd_def handle_def)
qed

lemma main_launched:
  "launches en \<Longrightarrow> main en = main_wait en (handle en) \<lparr>invoked = [(Synchronous, runCmd en)], stdout = []\<rparr>"
  using main_accepted[of en] by (simp add: launches_def Let_def)

lemma main_wait_outcome:
  "fst (main_wait en cid w) =
     (if WaitEvent \<in> set (events en)
      then let p = exec en (length (invoked w)) [''docker'', ''wait'', cid];
               q = exec en (length (invoked w) + 1 + length (received (events en)))
                     [''docker'', ''wait'', cid];
               res = (if snd p \<noteq> None then q else p)
           in case extracted (fst res) (snd res) of None \<Rightarrow> Exit 1 | Some n \<Rightarrow> Exit n
      else Blocked)"
proof -
  let ?c = "runCommandSendResult (exec en) (Command ''docker'' [''wait'', cid]) w"
  let ?l = "waitForResult (exec en) cid (events en) (fst ?c) (snd ?c)"
  show ?thesis
  proof (cases "WaitEvent \<in> set (events en)")
    case False
    then have "fst ?l = None" by (simp add: waitForResult_result)
    then show ?thesis using False
      by (simp add: main_wait_def Let_def split_beta split: prod.splits option.splits)
  next
    case True
    then have l: "fst ?l = Some (fst ?c)" by (simp add: waitForResult_result)
    have len: "length (invoked (snd ?l)) = length (invoked w) + 1 + length (received (events en))"
      by (simp add: waitForResult_invoked)
    show ?thesis using True l len
      by (simp add: main_wait_def Let_def split_beta main_exitcode_outcome main_rewait_result
               Command_def prod_eq_iff
          split: prod.splits option.splits)
  qed
qed

lemma main_wait_invoked:
  "invoked (snd (main_wait en cid w)) =
     invoked w @ [(Goroutine, [''docker'', ''wait'', cid])]
     @ map (control cid) (actions [] (received (events en)))
     @ (if WaitEvent \<in> set (events en)
        then let p = exec en (length (invoked w)) [''docker'', ''wait'', cid];
                 q = exec en (length (invoked w) + 1 + length (received (events en)))
                       [''docker'', ''wait'', cid];
                 res = (if snd p \<noteq> None then q else p)
             in (if snd p \<noteq> None then [(Synchronous, [''docker'', ''wait'', cid])] else [])
                @ (case extracted (fst res) (snd res) of
                     None \<Rightarrow> []
                   | Some n \<Rightarrow> [(Synchronous, [''docker'', ''logs'', cid]),
                                 (Synchronous, [''docker'', ''rm'', cid])])
        else [])"
proof -
  let ?c = "runCommandSendResult (exec en) (Command ''docker'' [''wait'', cid]) w"
  let ?l = "waitForResult (exec en) cid (events en) (fst ?c) (snd ?c)"
  have inv: "invoked (snd ?l) = invoked w @ [(Goroutine, [''docker'', ''wait'', cid])]
       @ map (control cid) (actions [] (received (events en)))"
    by (simp add: waitForResult_invoked Command_def)
  show ?thesis
  proof (cases "WaitEvent \<in> set (events en)")
    case False
    then have "fst ?l = None" by (simp add: waitForResult_result)
    then show ?thesis using False inv
      by (simp add: main_wait_def Let_def split_beta split: prod.splits option.splits)
  next
    case True
    then have l: "fst ?l = Some (fst ?c)" by (simp add: waitForResult_result)
    have len: "length (invoked (snd ?l)) = length (invoked w) + 1 + length (received (events en))"
      by (simp add: waitForResult_invoked Command_def)
    show ?thesis using True l len inv
      by (simp add: main_wait_def Let_def split_beta main_exitcode_invoked main_rewait_result
               main_rewait_invoked Command_def
          split: prod.splits option.splits)
  qed
qed

lemma main_outcome:
  assumes "launches en"
  shows "fst (main en) =
     (if completes en
      then case extracted (fst (resolved en)) (snd (resolved en)) of
             None \<Rightarrow> Exit 1 | Some n \<Rightarrow> Exit n
      else Blocked)"
  using assms
  by (simp add: main_launched main_wait_outcome completes_def resolved_def primary_def
        fallback_def waitCmd_def Let_def)

lemma main_invoked:
  assumes "launches en"
  shows "invoked (snd (main en)) =
     [(Synchronous, runCmd en), (Goroutine, waitCmd en)]
     @ map (control (handle en)) (actions [] (received (events en)))
     @ (if completes en
        then (if snd (primary en) \<noteq> None then [(Synchronous, waitCmd en)] else [])
             @ (case extracted (fst (resolved en)) (snd (resolved en)) of
                  None \<Rightarrow> []
                | Some n \<Rightarrow> [(Synchronous, logsCmd en), (Synchronous, rmCmd en)])
        else [])"
  using assms
  by (simp add: main_launched main_wait_invoked completes_def resolved_def primary_def
        fallback_def waitCmd_def logsCmd_def rmCmd_def Let_def cong: option.case_cong)


lemma Atoi_range: "Atoi s = Some n \<Longrightarrow> - (2 ^ 63) \<le> n \<and> n < 2 ^ 63"
  by (auto simp: Atoi_def Let_def split: if_splits)

lemma calls_control:
  "verb \<notin> {a, ''stop'', ''kill''} \<Longrightarrow> calls verb (map (control cid) (actions a sigs)) = []"
proof (induction sigs arbitrary: a)
  case (Cons sig sigs)
  then show ?case
    by (cases sig) (auto simp: calls_def control_def Let_def)
qed (simp add: calls_def)

lemma calls_append [simp]: "calls verb (xs @ ys) = calls verb xs @ calls verb ys"
  by (simp add: calls_def)

lemma calls_Cons:
  "calls verb (ic # tr) = (if take 2 (snd ic) = [''docker'', verb] then ic # calls verb tr else calls verb tr)"
  by (simp add: calls_def)

lemma calls_Nil [simp]: "calls verb [] = []"
  by (simp add: calls_def)

lemma actions_registered:
  "set sigs \<subseteq> {Interrupt, Kill} \<Longrightarrow>
   actions a sigs = map (\<lambda>sig. if sig = Interrupt then ''stop'' else ''kill'') sigs"
  by (induction sigs arbitrary: a) (auto simp: Let_def)

text \<open>A wait output of \<open>0\<close> with no error is read as the exit code 0.\<close>

lemma extracted_zero: "extracted ''0'' None = Some 0"
  by (simp add: extracted_def Atoi_def Trim_def TrimLeft_def TrimRight_def HasPrefix_def
        isDigit_def digitVal_def Let_def)

text \<open>A format without \<open>%\<close> is written as it is.\<close>

lemma doPrintf_plain: "CHR ''%'' \<notin> set s \<Longrightarrow> doPrintf s = s"
  by (induction s) auto



section \<open>The claims\<close>

text \<open>
  Claim C10. \<open>runCommandWithOutput\<close> starts the command and returns its combined output
  and its error unchanged. The exit code it returns is 0 when the command returns no
  error, the exit status of the wait status when the error is an \<open>ExitError\<close>, and 127
  for any other error.
\<close>

theorem runCommandWithOutput_exit_code:
  "runCommandWithOutput rt m cmd w =
     (let r = rt (length (invoked w)) cmd
      in ((fst r,
           (case snd r of
              None \<Rightarrow> 0
            | Some (ExitError procExit msg) \<Rightarrow> ExitStatus procExit
            | Some (OtherError msg) \<Rightarrow> 127),
           snd r),
          w\<lparr>invoked := invoked w @ [(m, cmd)]\<rparr>))"
  by (simp add: runCommandWithOutput_def CombinedOutput_def Let_def split_beta
      split: option.splits go_error.splits)

text \<open>
  Claim C9. When the argument vector is empty or contains \<open>-i\<close> or \<open>-a\<close>, the process
  exits with status 1, has written a message to standard output, and has started no
  external command.
\<close>

theorem rejected_arguments_exit_1:
  assumes "Args en = [] \<or> ''-i'' \<in> set (Args en) \<or> ''-a'' \<in> set (Args en)"
  shows "fst (main en) = Exit 1 \<and> invoked (snd (main en)) = [] \<and> stdout (snd (main en)) \<noteq> []"
proof -
  from assms have "\<not> accepted (Args en)" by (auto simp: accepted_def)
  then show ?thesis by (simp add: main_rejected)
qed

theorem rejected_arguments_exit_1_witness:
  "''-i'' \<in> set (Args run_interactive) \<and> fst (main run_interactive) = Exit 1
   \<and> invoked (snd (main run_interactive)) = [] \<and> stdout (snd (main run_interactive)) \<noteq> []"
proof -
  have h: "''-i'' \<in> set (Args run_interactive)" by (simp add: run_interactive_def)
  then have "Args run_interactive = [] \<or> ''-i'' \<in> set (Args run_interactive)
             \<or> ''-a'' \<in> set (Args run_interactive)" by simp
  from rejected_arguments_exit_1[OF this] h show ?thesis by simp
qed

text \<open>
  Claim C3. In the selection loop every received signal, when the signals are the two that
  \<open>main\<close> has registered, starts exactly one command against the handle: \<open>docker stop\<close>
  for an interrupt and \<open>docker kill\<close> for a kill, in the order of the signals. Whatever
  these commands answer, the loop goes on: it returns exactly when the wait result
  arrives, and then it returns that result.
\<close>

theorem waitForResult_relays_each_signal:
  assumes "set (received evs) \<subseteq> {Interrupt, Kill}"
  shows "invoked (snd (waitForResult rt cid evs r w)) =
           invoked w @ map (\<lambda>sig. (Synchronous,
                                    [''docker'', if sig = Interrupt then ''stop'' else ''kill'', cid]))
                           (received evs)
         \<and> fst (waitForResult rt cid evs r w) = (if WaitEvent \<in> set evs then Some r else None)"
  using assms
  by (simp add: waitForResult_invoked waitForResult_result actions_registered control_def)

theorem waitForResult_relays_each_signal_witness:
  "set (received two_signals) \<subseteq> {Interrupt, Kill}
   \<and> invoked (snd (waitForResult failing ''4f2a9c01b7de'' two_signals
                     \<lparr>output' = ''0'', exitCode = 0, err = None\<rparr> \<lparr>invoked = [], stdout = []\<rparr>)) =
       [(Synchronous, [''docker'', ''stop'', ''4f2a9c01b7de'']),
        (Synchronous, [''docker'', ''kill'', ''4f2a9c01b7de''])]
   \<and> fst (waitForResult failing ''4f2a9c01b7de'' two_signals
            \<lparr>output' = ''0'', exitCode = 0, err = None\<rparr> \<lparr>invoked = [], stdout = []\<rparr>) =
       Some \<lparr>output' = ''0'', exitCode = 0, err = None\<rparr>"
proof -
  have h: "set (received two_signals) \<subseteq> {Interrupt, Kill}"
    by (simp add: two_signals_def)
  have r: "received two_signals = [Interrupt, Kill]" by (simp add: two_signals_def)
  have c: "WaitEvent \<in> set two_signals" by (simp add: two_signals_def)
  from waitForResult_relays_each_signal[OF h, of failing "''4f2a9c01b7de''"
         "\<lparr>output' = ''0'', exitCode = 0, err = None\<rparr>" "\<lparr>invoked = [], stdout = []\<rparr>"]
  show ?thesis using h by (simp add: r c)
qed

text \<open>
  Claim C1. In every run that launches and whose selection loop returns, \<open>docker wait\<close>
  is started once in the background; when the result of that background command carries
  an error it is started exactly once more, synchronously and with the same handle, and
  the rest of \<open>main\<close> goes on with the output and the error of this second command
  only. When the background result carries no error, there is no second \<open>docker wait\<close>.
\<close>

theorem second_wait_iff_first_failed:
  assumes "launches en" and "completes en"
  shows "calls ''wait'' (invoked (snd (main en))) =
           (Goroutine, waitCmd en)
           # (if snd (primary en) \<noteq> None then [(Synchronous, waitCmd en)] else [])
         \<and> (snd (primary en) \<noteq> None \<longrightarrow>
              fst (main en) =
                fst (main_exitcode (exec en) (handle en) (fst (fallback en)) (snd (fallback en)) w))"
proof -
  have c: "calls ''wait'' (map (control (handle en)) (actions [] (received (events en)))) = []"
    by (rule calls_control) simp
  have "calls ''wait'' (invoked (snd (main en))) =
           (Goroutine, waitCmd en)
           # (if snd (primary en) \<noteq> None then [(Synchronous, waitCmd en)] else [])"
    using assms
    by (simp add: main_invoked c calls_Cons runCmd_def waitCmd_def logsCmd_def rmCmd_def
          split: option.splits)
  moreover have "snd (primary en) \<noteq> None \<longrightarrow>
              fst (main en) =
                fst (main_exitcode (exec en) (handle en) (fst (fallback en)) (snd (fallback en)) w)"
    using assms by (simp add: main_outcome main_exitcode_outcome resolved_def)
  ultimately show ?thesis by simp
qed

theorem second_wait_iff_first_failed_witness:
  "launches run_interrupted \<and> completes run_interrupted \<and> snd (primary run_interrupted) \<noteq> None
   \<and> calls ''wait'' (invoked (snd (main run_interrupted))) =
       [(Goroutine, [''docker'', ''wait'', ''4f2a9c01b7de'']),
        (Synchronous, [''docker'', ''wait'', ''4f2a9c01b7de''])]
   \<and> fst (fallback run_interrupted) = ''137\<newline>''
   \<and> fst (main run_interrupted) = Exit 137"
proof -
  have h1: "launches run_interrupted" by code_simp
  have h2: "completes run_interrupted" by code_simp
  have p: "snd (primary run_interrupted) \<noteq> None" by code_simp
  have c: "waitCmd run_interrupted = [''docker'', ''wait'', ''4f2a9c01b7de'']" by code_simp
  have f: "fst (fallback run_interrupted) = ''137\<newline>''" by code_simp
  have x: "fst (main_exitcode (exec run_interrupted) (handle run_interrupted)
                  ''137\<newline>'' (snd (fallback run_interrupted))
                  \<lparr>invoked = [], stdout = []\<rparr>) = Exit 137"
    by code_simp
  from second_wait_iff_first_failed[OF h1 h2, of "\<lparr>invoked = [], stdout = []\<rparr>"]
  show ?thesis using h1 h2 p f by (simp add: c x)
qed

text \<open>
  Claim C2. After the fallback, a wait result that carries an error or whose output
  contains \<open>Error\<close> ends the process with status 1. Otherwise the output, with the
  newlines at both ends removed, is parsed as a decimal integer: the process ends with
  status 1 when that fails and goes on to exit with the parsed integer when it succeeds.
\<close>

theorem exit_code_extraction:
  assumes "launches en" and "completes en"
  shows "fst (main en) =
           (if snd (resolved en) \<noteq> None \<or> Contains (fst (resolved en)) ''Error'' then Exit 1
            else case Atoi (Trim (fst (resolved en)) ''\<newline>'') of
                   None \<Rightarrow> Exit 1
                 | Some finalExitCode \<Rightarrow> Exit finalExitCode)"
  using assms by (simp add: main_outcome extracted_def)

theorem exit_code_extraction_witness:
  "launches run_interrupted \<and> completes run_interrupted
   \<and> resolved run_interrupted = (''137\<newline>'', None) \<and> fst (main run_interrupted) = Exit 137"
proof -
  have h1: "launches run_interrupted" by code_simp
  have h2: "completes run_interrupted" by code_simp
  have r: "resolved run_interrupted = (''137\<newline>'', None)" by code_simp
  have c: "\<not> Contains ''137\<newline>'' ''Error''" by code_simp
  have a: "Atoi (Trim ''137\<newline>'' ''\<newline>'') = Some 137" by code_simp
  from exit_code_extraction[OF h1 h2] show ?thesis using h1 h2 r c a by simp
qed



text \<open>
  Claim C5. The logs are passed to \<open>fmt.Printf\<close> as the format string, so a
  \<open>%\<close> in them is read as the start of a directive. When the workload has printed
  \<open>100%\<close> and \<open>docker logs\<close> succeeds, standard output receives
  \<open>100%!(NOVERB)\<close> instead of the logs.
\<close>

theorem logs_with_percent_not_verbatim:
  "exec run_logs_percent 2 (logsCmd run_logs_percent) = (''100%'', None)
   \<and> fst (main run_logs_percent) = Exit 0
   \<and> stdout (snd (main run_logs_percent)) = ''100%!(NOVERB)''"
proof -
  have "exec run_logs_percent 2 (logsCmd run_logs_percent) = (''100%'', None)" by code_simp
  moreover have "fst (main run_logs_percent) = Exit 0" by code_simp
  moreover have "stdout (snd (main run_logs_percent)) = ''100%!(NOVERB)''" by code_simp
  ultimately show ?thesis by simp
qed

text \<open>
  Claim C6. Once an exit code has been read from the wait result, the process exits with
  that code, and \<open>docker logs\<close> and then \<open>docker rm\<close> are the last two commands
  it starts, each with the handle. Nothing is assumed about what these two commands
  return, so their failure changes neither the exit code nor the commands started.
\<close>

theorem cleanup_failures_keep_exit_code:
  assumes "launches en" and "completes en"
    and "snd (resolved en) = None" and "\<not> Contains (fst (resolved en)) ''Error''"
    and "Atoi (Trim (fst (resolved en)) ''\<newline>'') = Some finalExitCode"
  shows "fst (main en) = Exit finalExitCode
         \<and> invoked (snd (main en)) =
             [(Synchronous, runCmd en), (Goroutine, waitCmd en)]
             @ map (control (handle en)) (actions [] (received (events en)))
             @ (if snd (primary en) \<noteq> None then [(Synchronous, waitCmd en)] else [])
             @ [(Synchronous, logsCmd en), (Synchronous, rmCmd en)]"
  using assms by (simp add: main_outcome main_invoked extracted_def)

theorem cleanup_failures_keep_exit_code_witness:
  "launches run_cleanup_fails \<and> completes run_cleanup_fails
   \<and> resolved run_cleanup_fails = (''3\<newline>'', None)
   \<and> Contains (fst (exec run_cleanup_fails 2 (logsCmd run_cleanup_fails))) ''No such container''
   \<and> snd (exec run_cleanup_fails 3 (rmCmd run_cleanup_fails)) \<noteq> None
   \<and> fst (main run_cleanup_fails) = Exit 3
   \<and> invoked (snd (main run_cleanup_fails)) =
       [(Synchronous, [''docker'', ''run'', ''-d'', ''busybox'', ''false'']),
        (Goroutine, [''docker'', ''wait'', ''4f2a9c01b7de'']),
        (Synchronous, [''docker'', ''logs'', ''4f2a9c01b7de'']),
        (Synchronous, [''docker'', ''rm'', ''4f2a9c01b7de''])]"
proof -
  have h1: "launches run_cleanup_fails" by code_simp
  have h2: "completes run_cleanup_fails" by code_simp
  have r: "resolved run_cleanup_fails = (''3\<newline>'', None)" by code_simp
  have h3: "snd (resolved run_cleanup_fails) = None" by (simp add: r)
  have h4: "\<not> Contains (fst (resolved run_cleanup_fails)) ''Error''" by code_simp
  have h5: "Atoi (Trim (fst (resolved run_cleanup_fails)) ''\<newline>'') = Some 3" by code_simp
  have l: "Contains (fst (exec run_cleanup_fails 2 (logsCmd run_cleanup_fails))) ''No such container''"
    by code_simp
  have m: "snd (exec run_cleanup_fails 3 (rmCmd run_cleanup_fails)) \<noteq> None" by code_simp
  have e: "runCmd run_cleanup_fails = [''docker'', ''run'', ''-d'', ''busybox'', ''false'']"
    "waitCmd run_cleanup_fails = [''docker'', ''wait'', ''4f2a9c01b7de'']"
    "logsCmd run_cleanup_fails = [''docker'', ''logs'', ''4f2a9c01b7de'']"
    "rmCmd run_cleanup_fails = [''docker'', ''rm'', ''4f2a9c01b7de'']"
    "received (events run_cleanup_fails) = []"
    "snd (primary run_cleanup_fails) = None"
    by code_simp+
  from cleanup_failures_keep_exit_code[OF h1 h2 h3 h4 h5]
  show ?thesis using h1 h2 r l m by (simp add: e)
qed

text \<open>
  Claim C7. When the wait result that \<open>main\<close> goes on with is the output \<open>0\<close> with no
  error, the process exits with 0, and afterwards \<open>docker logs\<close> and \<open>docker rm\<close>
  are started exactly once each, with the handle, as the last two commands of the run.
\<close>

theorem wait_zero_exits_zero:
  assumes "launches en" and "completes en" and "resolved en = (''0'', None)"
  shows "fst (main en) = Exit 0
         \<and> calls ''logs'' (invoked (snd (main en))) = [(Synchronous, logsCmd en)]
         \<and> calls ''rm'' (invoked (snd (main en))) = [(Synchronous, rmCmd en)]
         \<and> (\<exists>before. invoked (snd (main en)) =
                       before @ [(Synchronous, logsCmd en), (Synchronous, rmCmd en)])"
proof -
  have l: "calls ''logs'' (map (control (handle en)) (actions [] (received (events en)))) = []"
    by (rule calls_control) simp
  have r: "calls ''rm'' (map (control (handle en)) (actions [] (received (events en)))) = []"
    by (rule calls_control) simp
  have e: "extracted (fst (resolved en)) (snd (resolved en)) = Some 0"
    using assms(3) by (simp add: extracted_zero)
  have inv: "invoked (snd (main en)) =
     ([(Synchronous, runCmd en), (Goroutine, waitCmd en)]
      @ map (control (handle en)) (actions [] (received (events en)))
      @ (if snd (primary en) \<noteq> None then [(Synchronous, waitCmd en)] else []))
     @ [(Synchronous, logsCmd en), (Synchronous, rmCmd en)]"
    using assms(1,2) by (simp add: main_invoked e)
  have "fst (main en) = Exit 0" using assms(1,2) by (simp add: main_outcome e)
  moreover have "calls ''logs'' (invoked (snd (main en))) = [(Synchronous, logsCmd en)]"
    by (simp add: inv l calls_Cons runCmd_def waitCmd_def logsCmd_def rmCmd_def)
  moreover have "calls ''rm'' (invoked (snd (main en))) = [(Synchronous, rmCmd en)]"
    by (simp add: inv r calls_Cons runCmd_def waitCmd_def logsCmd_def rmCmd_def)
  moreover have "\<exists>before. invoked (snd (main en)) =
                       before @ [(Synchronous, logsCmd en), (Synchronous, rmCmd en)]"
    using inv by blast
  ultimately show ?thesis by simp
qed

theorem wait_zero_exits_zero_witness:
  "launches run_plain \<and> completes run_plain \<and> resolved run_plain = (''0'', None)
   \<and> fst (main run_plain) = Exit 0
   \<and> calls ''logs'' (invoked (snd (main run_plain))) =
       [(Synchronous, [''docker'', ''logs'', ''4f2a9c01b7de''])]
   \<and> calls ''rm'' (invoked (snd (main run_plain))) =
       [(Synchronous, [''docker'', ''rm'', ''4f2a9c01b7de''])]"
proof -
  have h1: "launches run_plain" by code_simp
  have h2: "completes run_plain" by code_simp
  have h3: "resolved run_plain = (''0'', None)" by code_simp
  have e: "logsCmd run_plain = [''docker'', ''logs'', ''4f2a9c01b7de'']"
    "rmCmd run_plain = [''docker'', ''rm'', ''4f2a9c01b7de'']"
    by code_simp+
  from wait_zero_exits_zero[OF h1 h2 h3] show ?thesis using h1 h2 h3 by (simp add: e)
qed

text \<open>
  Claim C8, as amended. In a run that launches, the handle is the combined output of
  \<open>docker run\<close> with every leading and every trailing newline removed; the background
  \<open>docker wait\<close> is started with it, and every command started after \<open>docker run\<close>
  has exactly this handle as its only operand.
\<close>

theorem handle_is_output_trimmed_at_both_ends:
  assumes "launches en"
  shows "take 2 (invoked (snd (main en))) =
           [(Synchronous, runCmd en),
            (Goroutine, [''docker'', ''wait'', Trim (fst (exec en 0 (runCmd en))) ''\<newline>''])]
         \<and> (\<forall>ic \<in> set (tl (invoked (snd (main en)))).
              \<exists>verb. snd ic = [''docker'', verb, Trim (fst (exec en 0 (runCmd en))) ''\<newline>''])"
  using assms
  by (auto simp: main_invoked waitCmd_def logsCmd_def rmCmd_def control_def handle_def
      split: option.splits if_splits)

theorem handle_is_output_trimmed_at_both_ends_witness:
  "launches run_leading_newline
   \<and> take 2 (invoked (snd (main run_leading_newline))) =
       [(Synchronous, [''docker'', ''run'', ''-d'', ''busybox'']),
        (Goroutine, [''docker'', ''wait'', ''4f2a9c01b7de''])]"
proof -
  have h: "launches run_leading_newline" by code_simp
  have e: "runCmd run_leading_newline = [''docker'', ''run'', ''-d'', ''busybox'']"
    "Trim (fst (exec run_leading_newline 0 [''docker'', ''run'', ''-d'', ''busybox'']))
       ''\<newline>'' = ''4f2a9c01b7de''"
    by code_simp+
  from handle_is_output_trimmed_at_both_ends[OF h] show ?thesis using h by (simp add: e)
qed

text \<open>
  The claim as written, with only the trailing newline removed, fails for an output that
  starts with a newline: the handle loses the leading newline too.
\<close>

theorem handle_leading_newline_counterexample:
  "launches run_leading_newline
   \<and> fst (exec run_leading_newline 0 (runCmd run_leading_newline)) = ''\<newline>4f2a9c01b7de\<newline>''
   \<and> trimTrailingNewline ''\<newline>4f2a9c01b7de\<newline>'' = ''\<newline>4f2a9c01b7de''
   \<and> TrimRight ''\<newline>4f2a9c01b7de\<newline>'' ''\<newline>'' = ''\<newline>4f2a9c01b7de''
   \<and> invoked (snd (main run_leading_newline)) ! 1 =
       (Goroutine, [''docker'', ''wait'', ''4f2a9c01b7de''])"
proof -
  have "launches run_leading_newline" by code_simp
  moreover have "fst (exec run_leading_newline 0 (runCmd run_leading_newline)) =
      ''\<newline>4f2a9c01b7de\<newline>''" by code_simp
  moreover have "trimTrailingNewline ''\<newline>4f2a9c01b7de\<newline>'' = ''\<newline>4f2a9c01b7de''"
    by code_simp
  moreover have "TrimRight ''\<newline>4f2a9c01b7de\<newline>'' ''\<newline>'' = ''\<newline>4f2a9c01b7de''"
    by code_simp
  moreover have "invoked (snd (main run_leading_newline)) ! 1 =
       (Goroutine, [''docker'', ''wait'', ''4f2a9c01b7de''])" by code_simp
  ultimately show ?thesis by simp
qed

end
